theory Spec2Isabelle
  imports Main "HOL-Library.Word" "HOL-Library.List_Lexorder" "HOL-Library.Multiset"
begin

section \<open>Strings and the regular expressions of the pattern list\<close>

text \<open>
  A Python \<open>str\<close> is a sequence of Unicode code points, so it is modelled as a list of
  natural numbers; \<open>lit\<close> turns an ASCII literal into such a list.
\<close>

type_synonym str = "nat list"

definition lit :: "string \<Rightarrow> str" where
  "lit s = map of_char s"

text \<open>
  The twelve patterns of \<open>ConfigObfuscator.__init__\<close> use four regex constructs only: a
  literal character, \<open>\s*\<close>, \<open>.*\<close> and a capturing group.
\<close>

datatype rx = Chr nat | WsStar | DotStar | Group "rx list"

text \<open>
  \<open>\s\<close> in a \<open>str\<close> pattern matches the Unicode whitespace characters (those of
  \<open>str.isspace\<close>).
\<close>

definition isspace :: "nat \<Rightarrow> bool" where
  "isspace c \<longleftrightarrow>
     (0x09 \<le> c \<and> c \<le> 0x0D) \<or> (0x1C \<le> c \<and> c \<le> 0x20) \<or> c = 0x85 \<or> c = 0xA0 \<or>
     c = 0x1680 \<or> (0x2000 \<le> c \<and> c \<le> 0x200A) \<or> c = 0x2028 \<or> c = 0x2029 \<or>
     c = 0x202F \<or> c = 0x205F \<or> c = 0x3000"

text \<open>
  A literal pattern character \<open>p\<close> against a text character \<open>c\<close>. Every literal of the
  pattern list is a lower-case ASCII letter, \<open>_\<close>, \<open>"\<close> or \<open>:\<close>. Under
  \<open>re.IGNORECASE\<close> a lower-case ASCII letter also matches its upper-case form and, for
  \<open>str\<close> patterns, the four non-ASCII letters that the \<open>re\<close> documentation lists:
  U+0130 and U+0131 for \<open>i\<close>, U+017F for \<open>s\<close>, U+212A for \<open>k\<close>.
\<close>

definition chr_eq :: "bool \<Rightarrow> nat \<Rightarrow> nat \<Rightarrow> bool" where
  "chr_eq ignorecase p c \<longleftrightarrow>
     c = p \<or>
     (ignorecase \<and>
       ((0x61 \<le> p \<and> p \<le> 0x7A \<and> c + 0x20 = p) \<or>
        (p = 0x69 \<and> (c = 0x130 \<or> c = 0x131)) \<or>
        (p = 0x73 \<and> c = 0x17F) \<or>
        (p = 0x6B \<and> c = 0x212A)))"

text \<open>
  \<open>rx_match ic r s\<close>: the pattern \<open>r\<close> matches some prefix of \<open>s\<close>. Only whether a
  match exists is needed, so greedy repetition is written as a choice between taking one
  more character and going on with the rest of the pattern. \<open>.\<close> does not match a newline.
\<close>

fun rx_match :: "bool \<Rightarrow> rx list \<Rightarrow> str \<Rightarrow> bool" where
  "rx_match ic [] s = True"
| "rx_match ic (Chr p # r) [] = False"
| "rx_match ic (Chr p # r) (c # t) = (chr_eq ic p c \<and> rx_match ic r t)"
| "rx_match ic (WsStar # r) [] = rx_match ic r []"
| "rx_match ic (WsStar # r) (c # t) =
     ((isspace c \<and> rx_match ic (WsStar # r) t) \<or> rx_match ic r (c # t))"
| "rx_match ic (DotStar # r) [] = rx_match ic r []"
| "rx_match ic (DotStar # r) (c # t) =
     ((c \<noteq> 0x0A \<and> rx_match ic (DotStar # r) t) \<or> rx_match ic r (c # t))"
| "rx_match ic (Group g # r) s = rx_match ic (g @ r) s"

text \<open>\<open>re.search(pattern, s, flags)\<close> as a truth value: a match starting anywhere in \<open>s\<close>.\<close>

fun re_search :: "rx list \<Rightarrow> str \<Rightarrow> bool \<Rightarrow> bool" where
  "re_search p [] ic = rx_match ic p []"
| "re_search p (c # t) ic = (rx_match ic p (c # t) \<or> re_search p t ic)"

definition chars :: "string \<Rightarrow> rx list" where
  "chars s = map Chr (lit s)"

text \<open>
  \<open>self.patterns\<close>, in the order of the source: \<open>(password\s*:).*\<close> and its five
  siblings, then \<open>(\"password\"\s*:).*\<close> and its five siblings (\<open>0x22\<close> is the double
  quote, \<open>0x3A\<close> the colon).
\<close>

definition patterns :: "rx list list" where
  "patterns =
    [[Group (chars ''password'' @ [WsStar, Chr 0x3A]), DotStar],
     [Group (chars ''api_key'' @ [WsStar, Chr 0x3A]), DotStar],
     [Group (chars ''secret'' @ [WsStar, Chr 0x3A]), DotStar],
     [Group (chars ''token'' @ [WsStar, Chr 0x3A]), DotStar],
     [Group (chars ''access_key'' @ [WsStar, Chr 0x3A]), DotStar],
     [Group (chars ''credentials'' @ [WsStar, Chr 0x3A]), DotStar],
     [Group (Chr 0x22 # chars ''password'' @ [Chr 0x22, WsStar, Chr 0x3A]), DotStar],
     [Group (Chr 0x22 # chars ''api_key'' @ [Chr 0x22, WsStar, Chr 0x3A]), DotStar],
     [Group (Chr 0x22 # chars ''secret'' @ [Chr 0x22, WsStar, Chr 0x3A]), DotStar],
     [Group (Chr 0x22 # chars ''token'' @ [Chr 0x22, WsStar, Chr 0x3A]), DotStar],
     [Group (Chr 0x22 # chars ''access_key'' @ [Chr 0x22, WsStar, Chr 0x3A]), DotStar],
     [Group (Chr 0x22 # chars ''credentials'' @ [Chr 0x22, WsStar, Chr 0x3A]), DotStar]]"

section \<open>Documents\<close>

text \<open>
  What \<open>yaml.safe_load\<close> and \<open>json.loads\<close> return: strings, dicts (insertion-ordered,
  here association lists), lists, and the scalars the engine never inspects (\<open>None\<close>,
  booleans, integers, floats as their 64 bits). A YAML mapping key need not be a string.
\<close>

datatype atom = ANone | ABool bool | AInt int | AFloat "64 word"

datatype key = KStr str | KNone | KBool bool | KInt int

datatype val = Str str | Dict "(key \<times> val) list" | List "val list" | Atom atom

datatype exn = TypeError | AttributeError

section \<open>The redaction engine\<close>

text \<open>
  \<open>re.search(pattern, key, re.IGNORECASE)\<close> on a dictionary key: a key that is not a
  string raises \<open>TypeError\<close>.
\<close>

fun re_search_key :: "rx list \<Rightarrow> key \<Rightarrow> exn + bool" where
  "re_search_key p (KStr k) = Inr (re_search p k True)"
| "re_search_key p k = Inl TypeError"

text \<open>
  The loop \<open>for pattern in self.patterns\<close> of \<open>obfuscate_config\<close>, lines 112 to 115: the
  result says whether \<open>config[key] = self.placeholder\<close> was executed before the \<open>break\<close>.
\<close>

fun key_loop :: "rx list list \<Rightarrow> key \<Rightarrow> exn + bool" where
  "key_loop [] k = Inr False"
| "key_loop (p # ps) k =
     (case re_search_key p k of
        Inl e \<Rightarrow> Inl e
      | Inr hit \<Rightarrow> if hit then Inr True else key_loop ps k)"

text \<open>
  The loop of \<open>obfuscate_value\<close>, lines 97 to 100, on a string value: the result says
  whether \<open>return self.placeholder\<close> was reached.
\<close>

fun value_loop :: "rx list list \<Rightarrow> str \<Rightarrow> bool" where
  "value_loop [] s = False"
| "value_loop (p # ps) s = (if re_search p s True then True else value_loop ps s)"

text \<open>
  \<open>obfuscate_value\<close> (the inner function), the list comprehension
  \<open>[obfuscate_value(item) for item in value]\<close> and \<open>obfuscate_config\<close>, with the
  placeholder as first argument. The source updates the dictionary in place, entry by entry
  in iteration order, and returns it; the model returns the updated association list. An
  exception leaves through \<open>Inl\<close> at the first entry that raises. A document is a tree
  here: a YAML alias that makes two positions share one object, or an object contain
  itself, and the recursion limit of the interpreter are outside the model.
\<close>

fun obfuscate_value :: "str \<Rightarrow> val \<Rightarrow> exn + val"
  and obfuscate_items :: "str \<Rightarrow> val list \<Rightarrow> exn + val list"
  and obfuscate_config :: "str \<Rightarrow> (key \<times> val) list \<Rightarrow> exn + (key \<times> val) list" where
  "obfuscate_value ph (Str s) = Inr (if value_loop patterns s then Str ph else Str s)"
| "obfuscate_value ph (Dict d) =
     (case obfuscate_config ph d of Inl e \<Rightarrow> Inl e | Inr d' \<Rightarrow> Inr (Dict d'))"
| "obfuscate_value ph (List l) =
     (case obfuscate_items ph l of Inl e \<Rightarrow> Inl e | Inr l' \<Rightarrow> Inr (List l'))"
| "obfuscate_value ph (Atom a) = Inr (Atom a)"
| "obfuscate_items ph [] = Inr []"
| "obfuscate_items ph (x # xs) =
     (case obfuscate_value ph x of
        Inl e \<Rightarrow> Inl e
      | Inr x' \<Rightarrow>
          (case obfuscate_items ph xs of Inl e \<Rightarrow> Inl e | Inr xs' \<Rightarrow> Inr (x' # xs')))"
| "obfuscate_config ph [] = Inr []"
| "obfuscate_config ph ((k, Str s) # rest) =
     (case key_loop patterns k of
        Inl e \<Rightarrow> Inl e
      | Inr hit \<Rightarrow>
          (case obfuscate_config ph rest of
             Inl e \<Rightarrow> Inl e
           | Inr rest' \<Rightarrow> Inr ((k, if hit then Str ph else Str s) # rest')))"
| "obfuscate_config ph ((k, Dict d) # rest) =
     (case obfuscate_config ph d of
        Inl e \<Rightarrow> Inl e
      | Inr d' \<Rightarrow>
          (case obfuscate_config ph rest of
             Inl e \<Rightarrow> Inl e
           | Inr rest' \<Rightarrow> Inr ((k, Dict d') # rest')))"
| "obfuscate_config ph ((k, List l) # rest) =
     (case obfuscate_items ph l of
        Inl e \<Rightarrow> Inl e
      | Inr l' \<Rightarrow>
          (case obfuscate_config ph rest of
             Inl e \<Rightarrow> Inl e
           | Inr rest' \<Rightarrow> Inr ((k, List l') # rest')))"
| "obfuscate_config ph ((k, Atom a) # rest) =
     (case obfuscate_config ph rest of
        Inl e \<Rightarrow> Inl e
      | Inr rest' \<Rightarrow> Inr ((k, Atom a) # rest'))"


section \<open>Notions used by the properties\<close>

text \<open>Some pattern of the list is found in the text (case-insensitive search).\<close>

definition matches_pattern :: "str \<Rightarrow> bool" where
  "matches_pattern s = list_ex (\<lambda>p. re_search p s True) patterns"

text \<open>Every mapping key, at every depth, is a string.\<close>

fun string_keys :: "val \<Rightarrow> bool"
  and string_keys_items :: "val list \<Rightarrow> bool"
  and string_keys_entries :: "(key \<times> val) list \<Rightarrow> bool" where
  "string_keys (Str s) = True"
| "string_keys (Dict d) = string_keys_entries d"
| "string_keys (List l) = string_keys_items l"
| "string_keys (Atom a) = True"
| "string_keys_items [] = True"
| "string_keys_items (x # xs) = (string_keys x \<and> string_keys_items xs)"
| "string_keys_entries [] = True"
| "string_keys_entries ((k, v) # rest) =
     ((case k of KStr _ \<Rightarrow> True | _ \<Rightarrow> False) \<and> string_keys v \<and> string_keys_entries rest)"

text \<open>Some mapping entry, at some depth, has a key that is not a string and a string value.\<close>

fun is_str_key :: "key \<Rightarrow> bool" where
  "is_str_key (KStr k) = True"
| "is_str_key k = False"

fun odd_entry :: "val \<Rightarrow> bool"
  and odd_entry_items :: "val list \<Rightarrow> bool"
  and odd_entry_entries :: "(key \<times> val) list \<Rightarrow> bool" where
  "odd_entry (Str s) = False"
| "odd_entry (Dict d) = odd_entry_entries d"
| "odd_entry (List l) = odd_entry_items l"
| "odd_entry (Atom a) = False"
| "odd_entry_items [] = False"
| "odd_entry_items (x # xs) = (odd_entry x \<or> odd_entry_items xs)"
| "odd_entry_entries [] = False"
| "odd_entry_entries ((k, Str s) # rest) = (\<not> is_str_key k \<or> odd_entry_entries rest)"
| "odd_entry_entries ((k, v) # rest) = (odd_entry v \<or> odd_entry_entries rest)"

text \<open>
  The shape of a document, in the words of the specification: which keys exist (in their
  order), the lengths of the lists, the nesting, and the kind of node at every position.
\<close>

datatype shape_tree = Scalar | Mapping "(key \<times> shape_tree) list" | Sequence "shape_tree list"

fun shape :: "val \<Rightarrow> shape_tree"
  and shape_items :: "val list \<Rightarrow> shape_tree list"
  and shape_entries :: "(key \<times> val) list \<Rightarrow> (key \<times> shape_tree) list" where
  "shape (Str s) = Scalar"
| "shape (Dict d) = Mapping (shape_entries d)"
| "shape (List l) = Sequence (shape_items l)"
| "shape (Atom a) = Scalar"
| "shape_items [] = []"
| "shape_items (x # xs) = shape x # shape_items xs"
| "shape_entries [] = []"
| "shape_entries ((k, v) # rest) = (k, shape v) # shape_entries rest"

section \<open>Files, logging, and the YAML and JSON libraries\<close>

text \<open>
  What a file holds: text, or what \<open>yaml.dump\<close> or \<open>json.dump\<close> wrote. The text that
  the two libraries produce is not spelled out; a written file is recorded as the writer,
  the document in the order in which its mapping entries are emitted, and the \<open>indent\<close>
  argument.
\<close>

datatype content = Text str | YamlOf val nat | JsonOf val nat

datatype level = DEBUG | INFO | WARNING | ERROR

fun level_no :: "level \<Rightarrow> nat" where
  "level_no DEBUG = 10"
| "level_no INFO = 20"
| "level_no WARNING = 30"
| "level_no ERROR = 40"

text \<open>The log messages of the source, with the values they interpolate.\<close>

datatype message =
    LoadedYaml str | NotYaml str | LoadedJson str | LoadFailed str | FileNotFound str
  | LoadUnexpected str | SavedYaml str | SavedJson str | UnknownExtension str | SaveFailed str
  | InputFile str | OutputFile "str option" | PlaceholderIs str | InputMissing str | Completed

text \<open>
  The world outside the program: the files by path, the paths whose \<open>open(..., 'r')\<close> or
  \<open>read\<close> raises although the file exists, the paths whose \<open>open(..., 'w')\<close> raises, the
  level of the root logger and the records logged so far.
\<close>

record world =
  files :: "str \<rightharpoonup> content"
  unreadable :: "str set"
  unwritable :: "str set"
  threshold :: level
  log :: "(level \<times> message) list"

definition logging :: "level \<Rightarrow> message \<Rightarrow> world \<Rightarrow> world" where
  "logging lv m w =
     (if level_no (threshold w) \<le> level_no lv then w\<lparr>log := log w @ [(lv, m)]\<rparr> else w)"

text \<open>
  The parsers are parameters: \<open>yaml.safe_load\<close> and \<open>json.loads\<close> return a document, raise
  their own error (\<open>yaml.YAMLError\<close>, \<open>json.JSONDecodeError\<close>) or raise something else.
\<close>

datatype parsed = Parsed val | FormatError | OtherError

record libs =
  yaml_safe_load :: "content \<Rightarrow> parsed"
  json_loads :: "content \<Rightarrow> parsed"

text \<open>
  \<open>yaml.dump(config, f, indent=2)\<close> is called without \<open>sort_keys\<close>, whose default is
  \<open>True\<close>: the representer runs \<open>sorted\<close> on the items of every mapping inside
  \<open>try ... except TypeError: pass\<close>. Keys that are all strings compare by code point, keys
  that are all numbers (\<open>bool\<close> counts as 0 or 1) by value; any other mix of two or
  more keys raises \<open>TypeError\<close> and the order stays. The keys of a dict are distinct, so
  the values are never compared.
\<close>

fun is_num_key :: "key \<Rightarrow> bool" where
  "is_num_key (KInt i) = True"
| "is_num_key (KBool b) = True"
| "is_num_key k = False"

fun key_str :: "key \<Rightarrow> str" where
  "key_str (KStr s) = s"
| "key_str k = []"

fun key_num :: "key \<Rightarrow> int" where
  "key_num (KInt i) = i"
| "key_num (KBool b) = (if b then 1 else 0)"
| "key_num k = 0"

definition py_sorted_items :: "(key \<times> val) list \<Rightarrow> (key \<times> val) list" where
  "py_sorted_items items =
     (if list_all (\<lambda>(k, v). is_str_key k) items then sort_key (\<lambda>(k, v). key_str k) items
      else if list_all (\<lambda>(k, v). is_num_key k) items then sort_key (\<lambda>(k, v). key_num k) items
      else items)"

text \<open>
  The document as the YAML emitter receives it. The representer sorts the items of a
  mapping and then represents each value; representing first and sorting afterwards is
  the same, since only keys are compared.
\<close>

fun yaml_represent :: "val \<Rightarrow> val"
  and yaml_represent_items :: "val list \<Rightarrow> val list"
  and yaml_represent_entries :: "(key \<times> val) list \<Rightarrow> (key \<times> val) list" where
  "yaml_represent (Str s) = Str s"
| "yaml_represent (Dict d) = Dict (py_sorted_items (yaml_represent_entries d))"
| "yaml_represent (List l) = List (yaml_represent_items l)"
| "yaml_represent (Atom a) = Atom a"
| "yaml_represent_items [] = []"
| "yaml_represent_items (x # xs) = yaml_represent x # yaml_represent_items xs"
| "yaml_represent_entries [] = []"
| "yaml_represent_entries ((k, v) # rest) = (k, yaml_represent v) # yaml_represent_entries rest"

definition yaml_dump :: "val \<Rightarrow> nat \<Rightarrow> content" where
  "yaml_dump config indent = YamlOf (yaml_represent config) indent"

text \<open>\<open>json.dump(config, f, indent=2)\<close>: \<open>sort_keys\<close> defaults to \<open>False\<close>, dict order is kept.\<close>

definition json_dump :: "val \<Rightarrow> nat \<Rightarrow> content" where
  "json_dump config indent = JsonOf config indent"

section \<open>Loading, saving and \<open>main\<close>\<close>

record obfuscator =
  input_file :: str
  output_file :: str
  placeholder :: str

text \<open>\<open>__init__\<close>: \<open>output_file if output_file else input_file\<close>; \<open>None\<close> and \<open>""\<close> are falsy.\<close>

definition ConfigObfuscator :: "str \<Rightarrow> str option \<Rightarrow> str \<Rightarrow> obfuscator" where
  "ConfigObfuscator inp out ph =
     \<lparr>input_file = inp,
      output_file = (case out of None \<Rightarrow> inp | Some p \<Rightarrow> if p = [] then inp else p),
      placeholder = ph\<rparr>"

text \<open>
  \<open>load_config\<close>. Its failure value is Python's \<open>None\<close>, the value that \<open>yaml.safe_load\<close>
  also returns for an empty document.
\<close>

definition load_config :: "libs \<Rightarrow> obfuscator \<Rightarrow> world \<Rightarrow> val \<times> world" where
  "load_config L self w =
     (case files w (input_file self) of
        None \<Rightarrow> (Atom ANone, logging ERROR (FileNotFound (input_file self)) w)
      | Some file_content \<Rightarrow>
          if input_file self \<in> unreadable w
          then (Atom ANone, logging ERROR (LoadUnexpected (input_file self)) w)
          else
            (case yaml_safe_load L file_content of
               Parsed config \<Rightarrow> (config, logging INFO (LoadedYaml (input_file self)) w)
             | OtherError \<Rightarrow> (Atom ANone, logging ERROR (LoadUnexpected (input_file self)) w)
             | FormatError \<Rightarrow>
                 (let w1 = logging DEBUG (NotYaml (input_file self)) w in
                  case json_loads L file_content of
                    Parsed config \<Rightarrow> (config, logging INFO (LoadedJson (input_file self)) w1)
                  | FormatError \<Rightarrow>
                      (Atom ANone, logging ERROR (LoadFailed (input_file self)) w1)
                  | OtherError \<Rightarrow>
                      (Atom ANone, logging ERROR (LoadUnexpected (input_file self)) w1))))"

definition endswith :: "str \<Rightarrow> str \<Rightarrow> bool" where
  "endswith s suffix \<longleftrightarrow>
     length suffix \<le> length s \<and> drop (length s - length suffix) s = suffix"

definition write_file :: "str \<Rightarrow> content \<Rightarrow> world \<Rightarrow> world" where
  "write_file path c w = w\<lparr>files := (files w)(path \<mapsto> c)\<rparr>"

text \<open>
  \<open>save_config\<close>. The only failure modelled is that of \<open>open(self.output_file, 'w')\<close>;
  both libraries can write every document of the model.
\<close>

definition save_config :: "obfuscator \<Rightarrow> val \<Rightarrow> world \<Rightarrow> bool \<times> world" where
  "save_config self config w =
     (if endswith (output_file self) (lit ''.yaml'') \<or> endswith (output_file self) (lit ''.yml'')
      then
        (if output_file self \<in> unwritable w
         then (False, logging ERROR (SaveFailed (output_file self)) w)
         else (True, logging INFO (SavedYaml (output_file self))
                 (write_file (output_file self) (yaml_dump config 2) w)))
      else if endswith (output_file self) (lit ''.json'')
      then
        (if output_file self \<in> unwritable w
         then (False, logging ERROR (SaveFailed (output_file self)) w)
         else (True, logging INFO (SavedJson (output_file self))
                 (write_file (output_file self) (json_dump config 2) w)))
      else
        (let w1 = logging WARNING (UnknownExtension (output_file self)) w in
         if output_file self \<in> unwritable w1
         then (False, logging ERROR (SaveFailed (output_file self)) w1)
         else (True, write_file (output_file self) (yaml_dump config 2) w1)))"

text \<open>Python truth value of a loaded document, as \<open>if config:\<close> in \<open>main\<close> tests it.\<close>

fun truthy :: "val \<Rightarrow> bool" where
  "truthy (Str s) = (s \<noteq> [])"
| "truthy (Dict d) = (d \<noteq> [])"
| "truthy (List l) = (l \<noteq> [])"
| "truthy (Atom ANone) = False"
| "truthy (Atom (ABool b)) = b"
| "truthy (Atom (AInt i)) = (i \<noteq> 0)"
| "truthy (Atom (AFloat x)) = (x \<noteq> 0 \<and> x \<noteq> 0x8000000000000000)"

text \<open>
  The call \<open>obfuscator.obfuscate_config(config)\<close> of \<open>main\<close>: a value that is not a dict has
  no \<open>items\<close>.
\<close>

fun obfuscate_loaded :: "str \<Rightarrow> val \<Rightarrow> exn + val" where
  "obfuscate_loaded ph (Dict d) =
     (case obfuscate_config ph d of Inl e \<Rightarrow> Inl e | Inr d' \<Rightarrow> Inr (Dict d'))"
| "obfuscate_loaded ph v = Inl AttributeError"

record args =
  arg_input_file :: str
  arg_output_file :: "str option"
  arg_placeholder :: str
  arg_debug :: bool

datatype outcome = Exit nat | Uncaught exn

definition main :: "libs \<Rightarrow> args \<Rightarrow> world \<Rightarrow> outcome \<times> world" where
  "main L a w0 =
     (let w1 = (if arg_debug a then w0\<lparr>threshold := DEBUG\<rparr> else w0);
          w2 = logging DEBUG (InputFile (arg_input_file a)) w1;
          w3 = logging DEBUG (OutputFile (arg_output_file a)) w2;
          w4 = logging DEBUG (PlaceholderIs (arg_placeholder a)) w3
      in
        if files w4 (arg_input_file a) = None
        then (Exit 1, logging ERROR (InputMissing (arg_input_file a)) w4)
        else
          (let self = ConfigObfuscator (arg_input_file a) (arg_output_file a) (arg_placeholder a);
               (config, w5) = load_config L self w4
           in
             if truthy config
             then
               (case obfuscate_loaded (placeholder self) config of
                  Inl e \<Rightarrow> (Uncaught e, w5)
                | Inr obfuscated_config \<Rightarrow>
                    (let (saved, w6) = save_config self obfuscated_config w5 in
                     if saved then (Exit 0, logging INFO Completed w6) else (Exit 1, w6)))
             else (Exit 1, w5)))"

text \<open>
  The program: \<open>logging.basicConfig(level=logging.INFO)\<close> at import, then
  \<open>exit(main())\<close>; an uncaught exception ends the interpreter with status 1.
\<close>

fun exit_code :: "outcome \<Rightarrow> nat" where
  "exit_code (Exit n) = n"
| "exit_code (Uncaught e) = 1"

definition run :: "libs \<Rightarrow> args \<Rightarrow> world \<Rightarrow> nat \<times> world" where
  "run L a w = (let (r, w') = main L a (w\<lparr>threshold := INFO\<rparr>) in (exit_code r, w'))"


section \<open>Properties of the pattern loops\<close>

lemma value_loop_list_ex: "value_loop ps s = list_ex (\<lambda>p. re_search p s True) ps"
  by (induction ps) auto

lemma value_loop_patterns: "value_loop patterns s = matches_pattern s"
  by (simp add: value_loop_list_ex matches_pattern_def)

lemma key_loop_str: "key_loop ps (KStr k) = Inr (list_ex (\<lambda>p. re_search p k True) ps)"
  by (induction ps) auto

lemma key_loop_patterns_str: "key_loop patterns (KStr k) = Inr (matches_pattern k)"
  by (simp add: key_loop_str matches_pattern_def)

lemma key_loop_nonstr: "\<not> is_str_key k \<Longrightarrow> ps \<noteq> [] \<Longrightarrow> key_loop ps k = Inl TypeError"
  by (cases ps; cases k) auto

lemma patterns_nonempty: "patterns \<noteq> []"
  by (simp add: patterns_def)

lemma key_loop_patterns:
  "key_loop patterns k = (case k of KStr s \<Rightarrow> Inr (matches_pattern s) | _ \<Rightarrow> Inl TypeError)"
  by (cases k) (simp_all add: key_loop_patterns_str key_loop_nonstr patterns_nonempty)

section \<open>Properties of the engine\<close>

text \<open>The redacted document has the shape of the input, whenever the engine returns.\<close>

lemma obfuscate_shape:
  "obfuscate_value ph v = Inr v' \<Longrightarrow> shape v' = shape v"
  "obfuscate_items ph l = Inr l' \<Longrightarrow> shape_items l' = shape_items l"
  "obfuscate_config ph d = Inr d' \<Longrightarrow> shape_entries d' = shape_entries d"
  by (induction ph v and ph l and ph d arbitrary: v' and l' and d'
      rule: obfuscate_value_obfuscate_items_obfuscate_config.induct)
     (auto split: sum.splits if_splits)

text \<open>The only exception the engine raises on a mapping is the \<open>TypeError\<close> of \<open>re.search\<close>.\<close>

lemma obfuscate_exn:
  "obfuscate_value ph v = Inl e \<Longrightarrow> e = TypeError"
  "obfuscate_items ph l = Inl e \<Longrightarrow> e = TypeError"
  "obfuscate_config ph d = Inl e \<Longrightarrow> e = TypeError"
  by (induction ph v and ph l and ph d
      rule: obfuscate_value_obfuscate_items_obfuscate_config.induct)
     (auto split: sum.splits key.splits simp: key_loop_patterns)

lemma obfuscate_returns:
  "\<not> odd_entry v \<Longrightarrow> \<exists>v'. obfuscate_value ph v = Inr v'"
  "\<not> odd_entry_items l \<Longrightarrow> \<exists>l'. obfuscate_items ph l = Inr l'"
  "\<not> odd_entry_entries d \<Longrightarrow> \<exists>d'. obfuscate_config ph d = Inr d'"
  by (induction ph v and ph l and ph d
      rule: obfuscate_value_obfuscate_items_obfuscate_config.induct)
     (auto split: sum.splits key.splits simp: key_loop_patterns)

lemma string_keys_not_odd:
  "string_keys v \<Longrightarrow> \<not> odd_entry v"
  "string_keys_items l \<Longrightarrow> \<not> odd_entry_items l"
  "string_keys_entries d \<Longrightarrow> \<not> odd_entry_entries d"
  by (induction v and l and d rule: odd_entry_odd_entry_items_odd_entry_entries.induct)
     (auto split: key.splits)

text \<open>
  A second pass over a redacted document changes nothing: a replaced string stays the
  placeholder whether or not the placeholder matches a pattern, because the key decides
  in a mapping and both branches of \<open>obfuscate_value\<close> give the placeholder in a list.
\<close>

lemma obfuscate_idem:
  "obfuscate_value ph v = Inr v' \<Longrightarrow> obfuscate_value ph v' = Inr v'"
  "obfuscate_items ph l = Inr l' \<Longrightarrow> obfuscate_items ph l' = Inr l'"
  "obfuscate_config ph d = Inr d' \<Longrightarrow> obfuscate_config ph d' = Inr d'"
proof (induction ph v and ph l and ph d arbitrary: v' and l' and d'
      rule: obfuscate_value_obfuscate_items_obfuscate_config.induct)
  case (1 ph s)
  then show ?case by (auto split: if_splits)
next
  case (2 ph d)
  from "2.prems" obtain d1 where a: "obfuscate_config ph d = Inr d1" and c: "v' = Dict d1"
    by (auto split: sum.splits)
  have "obfuscate_config ph d1 = Inr d1" using "2.IH" [OF a] .
  then show ?case by (simp add: c)
next
  case (3 ph l)
  from "3.prems" obtain l1 where a: "obfuscate_items ph l = Inr l1" and c: "v' = List l1"
    by (auto split: sum.splits)
  have "obfuscate_items ph l1 = Inr l1" using "3.IH" [OF a] .
  then show ?case by (simp add: c)
next
  case (4 ph a)
  then show ?case by auto
next
  case (5 ph)
  then show ?case by auto
next
  case (6 ph x xs)
  from "6.prems" obtain x1 xs1 where a: "obfuscate_value ph x = Inr x1"
    and b: "obfuscate_items ph xs = Inr xs1" and c: "l' = x1 # xs1"
    by (auto split: sum.splits)
  have "obfuscate_value ph x1 = Inr x1" using "6.IH"(1) [OF a] .
  moreover have "obfuscate_items ph xs1 = Inr xs1" using "6.IH"(2) [OF a b] .
  ultimately show ?case by (simp add: c)
next
  case (7 ph)
  then show ?case by auto
next
  case (8 ph k s rest)
  from "8.prems" obtain hit r1 where a: "key_loop patterns k = Inr hit"
    and b: "obfuscate_config ph rest = Inr r1"
    and c: "d' = (k, if hit then Str ph else Str s) # r1"
    by (auto split: sum.splits)
  have "obfuscate_config ph r1 = Inr r1" using "8.IH" [OF a b] .
  then show ?case by (simp add: c a)
next
  case (9 ph k d rest)
  from "9.prems" obtain d1 r1 where a: "obfuscate_config ph d = Inr d1"
    and b: "obfuscate_config ph rest = Inr r1" and c: "d' = (k, Dict d1) # r1"
    by (auto split: sum.splits)
  have "obfuscate_config ph d1 = Inr d1" using "9.IH"(1) [OF a] .
  moreover have "obfuscate_config ph r1 = Inr r1" using "9.IH"(2) [OF a b] .
  ultimately show ?case by (simp add: c)
next
  case (10 ph k l rest)
  from "10.prems" obtain l1 r1 where a: "obfuscate_items ph l = Inr l1"
    and b: "obfuscate_config ph rest = Inr r1" and c: "d' = (k, List l1) # r1"
    by (auto split: sum.splits)
  have "obfuscate_items ph l1 = Inr l1" using "10.IH"(1) [OF a] .
  moreover have "obfuscate_config ph r1 = Inr r1" using "10.IH"(2) [OF a b] .
  ultimately show ?case by (simp add: c)
next
  case (11 ph k a rest)
  from "11.prems" obtain r1 where b: "obfuscate_config ph rest = Inr r1"
    and c: "d' = (k, Atom a) # r1"
    by (auto split: sum.splits)
  have "obfuscate_config ph r1 = Inr r1" using "11.IH" [OF b] .
  then show ?case by (simp add: c)
qed

lemma obfuscate_raises:
  "odd_entry v \<Longrightarrow> obfuscate_value ph v = Inl TypeError"
  "odd_entry_items l \<Longrightarrow> obfuscate_items ph l = Inl TypeError"
  "odd_entry_entries d \<Longrightarrow> obfuscate_config ph d = Inl TypeError"
  by (induction ph v and ph l and ph d
      rule: obfuscate_value_obfuscate_items_obfuscate_config.induct)
     (auto split: sum.splits key.splits simp: key_loop_patterns dest: obfuscate_exn)

lemma obfuscate_items_nth:
  "obfuscate_items ph l = Inr l' \<Longrightarrow>
     length l' = length l \<and> (\<forall>j<length l. obfuscate_value ph (l ! j) = Inr (l' ! j))"
proof (induction l arbitrary: l')
  case Nil
  then show ?case by simp
next
  case (Cons x xs)
  from Cons.prems obtain x1 xs1 where a: "obfuscate_value ph x = Inr x1"
    and b: "obfuscate_items ph xs = Inr xs1" and c: "l' = x1 # xs1"
    by (auto split: sum.splits)
  from Cons.IH [OF b] a c show ?case by (auto simp: nth_Cons split: nat.splits)
qed

lemma obfuscate_config_length:
  "obfuscate_config ph cfg = Inr cfg' \<Longrightarrow> length cfg' = length cfg"
proof (induction cfg arbitrary: cfg')
  case Nil
  then show ?case by simp
next
  case (Cons e rest)
  obtain k v where e: "e = (k, v)" by (cases e)
  from Cons.prems e obtain v1 r1 where b: "obfuscate_config ph rest = Inr r1"
    and c: "cfg' = (k, v1) # r1"
    by (cases v) (auto split: sum.splits)
  from Cons.IH [OF b] c show ?case by simp
qed

text \<open>What the loop body of \<open>obfuscate_config\<close> leaves at one entry.\<close>

lemma obfuscate_config_nth:
  "obfuscate_config ph cfg = Inr cfg' \<Longrightarrow> i < length cfg \<Longrightarrow>
     fst (cfg' ! i) = fst (cfg ! i) \<and>
     (case snd (cfg ! i) of
        Str s \<Rightarrow> \<exists>hit. key_loop patterns (fst (cfg ! i)) = Inr hit \<and>
                  snd (cfg' ! i) = (if hit then Str ph else Str s)
      | Dict d \<Rightarrow> \<exists>d'. obfuscate_config ph d = Inr d' \<and> snd (cfg' ! i) = Dict d'
      | List l \<Rightarrow> \<exists>l'. obfuscate_items ph l = Inr l' \<and> snd (cfg' ! i) = List l'
      | Atom a \<Rightarrow> snd (cfg' ! i) = Atom a)"
proof (induction cfg arbitrary: cfg' i)
  case Nil
  then show ?case by simp
next
  case (Cons e rest)
  obtain k v where e: "e = (k, v)" by (cases e)
  from Cons.prems(1) e obtain v1 r1 where b: "obfuscate_config ph rest = Inr r1"
    and c: "cfg' = (k, v1) # r1"
    and d: "case v of
           Str s \<Rightarrow> \<exists>hit. key_loop patterns k = Inr hit \<and> v1 = (if hit then Str ph else Str s)
         | Dict d \<Rightarrow> \<exists>d'. obfuscate_config ph d = Inr d' \<and> v1 = Dict d'
         | List l \<Rightarrow> \<exists>l'. obfuscate_items ph l = Inr l' \<and> v1 = List l'
         | Atom a \<Rightarrow> v1 = Atom a"
    by (cases v) (auto split: sum.splits)
  show ?case
  proof (cases i)
    case 0
    then show ?thesis using c d e by (cases v) auto
  next
    case (Suc j)
    with Cons.prems(2) have "j < length rest" by simp
    from Cons.IH [OF b this] show ?thesis
      by (cases "snd (rest ! j)") (auto simp: Suc c)
  qed
qed

section \<open>Properties of logging and loading\<close>

lemma level_no_ERROR: "level_no t \<le> 40"
  by (cases t) auto

lemma logging_files [simp]: "files (logging lv m w) = files w"
  by (simp add: logging_def)

lemma logging_unreadable [simp]: "unreadable (logging lv m w) = unreadable w"
  by (simp add: logging_def)

lemma logging_unwritable [simp]: "unwritable (logging lv m w) = unwritable w"
  by (simp add: logging_def)

lemma logging_ERROR: "log (logging ERROR m w) = log w @ [(ERROR, m)]"
  by (simp add: logging_def level_no_ERROR)

lemma input_file_ConfigObfuscator [simp]: "input_file (ConfigObfuscator i out ph) = i"
  by (simp add: ConfigObfuscator_def)

lemma load_config_unrecognized:
  assumes "files w (input_file self) = Some c" and "input_file self \<notin> unreadable w"
    and "yaml_safe_load L c = FormatError" and "json_loads L c = FormatError"
  shows "load_config L self w =
    (Atom ANone, logging ERROR (LoadFailed (input_file self)) (logging DEBUG (NotYaml (input_file self)) w))"
  using assms by (simp add: load_config_def Let_def)

section \<open>Properties of the writers\<close>













lemmas eval_defs = lit_def chars_def patterns_def chr_eq_def isspace_def matches_pattern_def

section \<open>The claims about the engine\<close>

text \<open>
  C1. The scenario of the specification: the document
  \<open>{"db": {"password": "hunter2", "host": "localhost"}}\<close> with placeholder
  \<open><REDACTED>\<close>. The engine returns the document as it is: the key \<open>password\<close> holds
  no colon, so no pattern is found in it, and the value \<open>hunter2\<close> stays.
\<close>

theorem C1_password_scenario_unchanged:
  "obfuscate_config (lit ''<REDACTED>'')
     [(KStr (lit ''db''), Dict [(KStr (lit ''password''), Str (lit ''hunter2'')),
                                (KStr (lit ''host''), Str (lit ''localhost''))])]
   = Inr [(KStr (lit ''db''), Dict [(KStr (lit ''password''), Str (lit ''hunter2'')),
                                    (KStr (lit ''host''), Str (lit ''localhost''))])]"
  by (simp add: eval_defs)

text \<open>
  C2, as stated, fails: the key \<open>password:\<close> matches a pattern and its value is a mapping,
  yet the engine recurses into the mapping and does not replace it; and the mapping
  \<open>{"password": {"nested": "value"}}\<close> of the claim is returned as it is.
\<close>

theorem C2_counterexample:
  "matches_pattern (lit ''password:'') \<and>
   obfuscate_config (lit ''<REDACTED>'')
     [(KStr (lit ''password:''), Dict [(KStr (lit ''token:''), Str (lit ''value''))])]
   = Inr [(KStr (lit ''password:''), Dict [(KStr (lit ''token:''), Str (lit ''<REDACTED>''))])] \<and>
   obfuscate_config (lit ''<REDACTED>'')
     [(KStr (lit ''password''), Dict [(KStr (lit ''nested''), Str (lit ''value''))])]
   \<noteq> Inr [(KStr (lit ''password''), Str (lit ''<REDACTED>''))]"
  by (simp add: eval_defs)

text \<open>
  C2, amended. In a mapping with string keys, an entry whose key matches a pattern keeps
  its key, and its value is replaced by the placeholder when it is a string; a mapping
  value is replaced by its redacted form, a list value by the list of its processed
  elements, and any other scalar stays.
\<close>

theorem C2_key_match_by_value_type:
  assumes "string_keys_entries cfg" and "i < length cfg" and "cfg ! i = (KStr k, v)"
    and "matches_pattern k"
  shows "\<exists>cfg'. obfuscate_config ph cfg = Inr cfg' \<and> length cfg' = length cfg \<and>
           fst (cfg' ! i) = KStr k \<and>
           (\<forall>s. v = Str s \<longrightarrow> snd (cfg' ! i) = Str ph) \<and>
           (\<forall>d. v = Dict d \<longrightarrow> (\<exists>d'. obfuscate_config ph d = Inr d' \<and> snd (cfg' ! i) = Dict d')) \<and>
           (\<forall>l. v = List l \<longrightarrow> (\<exists>l'. obfuscate_items ph l = Inr l' \<and> snd (cfg' ! i) = List l')) \<and>
           (\<forall>a. v = Atom a \<longrightarrow> snd (cfg' ! i) = Atom a)"
proof -
  from assms(1) have "\<not> odd_entry_entries cfg" by (rule string_keys_not_odd)
  then obtain cfg' where r: "obfuscate_config ph cfg = Inr cfg'"
    using obfuscate_returns(3) by blast
  have len: "length cfg' = length cfg" using r by (rule obfuscate_config_length)
  from obfuscate_config_nth [OF r assms(2)] assms(3,4)
  have "fst (cfg' ! i) = KStr k \<and>
           (\<forall>s. v = Str s \<longrightarrow> snd (cfg' ! i) = Str ph) \<and>
           (\<forall>d. v = Dict d \<longrightarrow> (\<exists>d'. obfuscate_config ph d = Inr d' \<and> snd (cfg' ! i) = Dict d')) \<and>
           (\<forall>l. v = List l \<longrightarrow> (\<exists>l'. obfuscate_items ph l = Inr l' \<and> snd (cfg' ! i) = List l')) \<and>
           (\<forall>a. v = Atom a \<longrightarrow> snd (cfg' ! i) = Atom a)"
    by (cases v) (auto simp: key_loop_patterns_str)
  with r len show ?thesis by blast
qed

theorem C2_key_match_by_value_type_witness:
  "string_keys_entries [(KStr (lit ''password:''), Str (lit ''hunter2''))] \<and>
   0 < length [(KStr (lit ''password:''), Str (lit ''hunter2''))] \<and>
   [(KStr (lit ''password:''), Str (lit ''hunter2''))] ! 0
     = (KStr (lit ''password:''), Str (lit ''hunter2'')) \<and>
   matches_pattern (lit ''password:'') \<and>
   (\<exists>cfg'. obfuscate_config (lit ''<REDACTED>'') [(KStr (lit ''password:''), Str (lit ''hunter2''))]
             = Inr cfg' \<and> snd (cfg' ! 0) = Str (lit ''<REDACTED>''))"
proof -
  have h1: "string_keys_entries [(KStr (lit ''password:''), Str (lit ''hunter2''))]" by simp
  have h2: "0 < length [(KStr (lit ''password:''), Str (lit ''hunter2''))]" by simp
  have h3: "[(KStr (lit ''password:''), Str (lit ''hunter2''))] ! 0
     = (KStr (lit ''password:''), Str (lit ''hunter2''))" by simp
  have h4: "matches_pattern (lit ''password:'')" by (simp add: eval_defs)
  from C2_key_match_by_value_type [OF h1 h2 h3 h4, of "lit ''<REDACTED>''"] h1 h2 h3 h4
  show ?thesis by blast
qed

text \<open>
  C3. A mapping entry whose key matches no pattern and whose string value does: the engine
  looks at the key only and leaves the value.
\<close>

theorem C3_value_text_not_checked:
  "\<not> matches_pattern (lit ''note'') \<and> matches_pattern (lit ''password: hunter2'') \<and>
   obfuscate_config (lit ''<REDACTED>'') [(KStr (lit ''note''), Str (lit ''password: hunter2''))]
   = Inr [(KStr (lit ''note''), Str (lit ''password: hunter2''))]"
  by (simp add: eval_defs)

text \<open>
  C4 (shape preservation). For every document whose root is a mapping (keys are strings, as
  in the data model), the engine returns a document of the same shape: the same keys in
  the same order, lists of the same length, the same nesting and the same kind of node
  at every position; only scalars can differ.
\<close>

theorem C4_shape_preservation:
  "string_keys_entries cfg \<Longrightarrow>
     \<exists>cfg'. obfuscate_config ph cfg = Inr cfg' \<and> shape (Dict cfg') = shape (Dict cfg)"
proof -
  assume "string_keys_entries cfg"
  then have "\<not> odd_entry_entries cfg" by (rule string_keys_not_odd)
  then obtain cfg' where r: "obfuscate_config ph cfg = Inr cfg'"
    using obfuscate_returns(3) by blast
  then have "shape_entries cfg' = shape_entries cfg" by (rule obfuscate_shape)
  with r show ?thesis by simp
qed

theorem C4_shape_preservation_witness:
  "string_keys_entries
     [(KStr (lit ''db''), Dict [(KStr (lit ''token:''), Str (lit ''t0'')),
        (KStr (lit ''hosts''), List [Str (lit ''a''), Atom (AInt 1)])])] \<and>
   (\<exists>cfg'. obfuscate_config (lit ''<REDACTED>'')
       [(KStr (lit ''db''), Dict [(KStr (lit ''token:''), Str (lit ''t0'')),
          (KStr (lit ''hosts''), List [Str (lit ''a''), Atom (AInt 1)])])] = Inr cfg' \<and>
     shape (Dict cfg') =
     shape (Dict [(KStr (lit ''db''), Dict [(KStr (lit ''token:''), Str (lit ''t0'')),
          (KStr (lit ''hosts''), List [Str (lit ''a''), Atom (AInt 1)])])]))"
  using C4_shape_preservation [of
     "[(KStr (lit ''db''), Dict [(KStr (lit ''token:''), Str (lit ''t0'')),
        (KStr (lit ''hosts''), List [Str (lit ''a''), Atom (AInt 1)])])]" "lit ''<REDACTED>''"]
  by simp

text \<open>
  C5 (idempotence). For every document whose root is a mapping and every placeholder, also
  one that matches a pattern itself, the engine returns a document on which a second run
  of the engine returns that same document.
\<close>

theorem C5_idempotence:
  "string_keys_entries cfg \<Longrightarrow>
     \<exists>cfg'. obfuscate_config ph cfg = Inr cfg' \<and> obfuscate_config ph cfg' = Inr cfg'"
proof -
  assume "string_keys_entries cfg"
  then have "\<not> odd_entry_entries cfg" by (rule string_keys_not_odd)
  then obtain cfg' where r: "obfuscate_config ph cfg = Inr cfg'"
    using obfuscate_returns(3) by blast
  then have "obfuscate_config ph cfg' = Inr cfg'" by (rule obfuscate_idem)
  with r show ?thesis by simp
qed

theorem C5_idempotence_witness:
  "string_keys_entries
     [(KStr (lit ''token:''), Str (lit ''t0'')), (KStr (lit ''l''), List [Str (lit ''secret: abc'')])] \<and>
   (\<exists>cfg'. obfuscate_config (lit ''password: x'')
       [(KStr (lit ''token:''), Str (lit ''t0'')), (KStr (lit ''l''), List [Str (lit ''secret: abc'')])]
       = Inr cfg' \<and>
     obfuscate_config (lit ''password: x'') cfg' = Inr cfg')"
  using C5_idempotence [of
     "[(KStr (lit ''token:''), Str (lit ''t0'')), (KStr (lit ''l''), List [Str (lit ''secret: abc'')])]"
     "lit ''password: x''"]
  by simp

text \<open>
  C6, as stated, fails: a list element that is not a string need not pass through
  unchanged. Here the element is itself a list, and the engine processes its elements.
\<close>

theorem C6_counterexample:
  "obfuscate_config (lit ''<REDACTED>'')
     [(KStr (lit ''items''), List [List [Str (lit ''secret: abc'')]])]
   = Inr [(KStr (lit ''items''), List [List [Str (lit ''<REDACTED>'')]])]"
  by (simp add: eval_defs)

text \<open>
  C6, amended. When a value of a string-keyed mapping is a list, the new value is a list
  of the same length in the same order, where a string element is replaced by the
  placeholder exactly when some pattern is found in its text, any other scalar element is
  unchanged, a mapping element is replaced by its redacted form and a list element by
  the list of its processed elements. The list \<open>["secret: abc", "normal text"]\<close> becomes
  the placeholder followed by \<open>"normal text"\<close>.
\<close>

theorem C6_list_elements:
  "(\<forall>cfg i k xs ph. string_keys_entries cfg \<and> i < length cfg \<and> cfg ! i = (k, List xs) \<longrightarrow>
      (\<exists>cfg' xs'. obfuscate_config ph cfg = Inr cfg' \<and> cfg' ! i = (k, List xs') \<and>
         length xs' = length xs \<and>
         (\<forall>j<length xs.
            (\<forall>s. xs ! j = Str s \<longrightarrow> xs' ! j = (if matches_pattern s then Str ph else Str s)) \<and>
            (\<forall>a. xs ! j = Atom a \<longrightarrow> xs' ! j = Atom a) \<and>
            (\<forall>d. xs ! j = Dict d \<longrightarrow> (\<exists>d'. obfuscate_config ph d = Inr d' \<and> xs' ! j = Dict d')) \<and>
            (\<forall>l. xs ! j = List l \<longrightarrow> (\<exists>l'. obfuscate_items ph l = Inr l' \<and> xs' ! j = List l'))))) \<and>
   obfuscate_config (lit ''<REDACTED>'')
     [(KStr (lit ''items''), List [Str (lit ''secret: abc''), Str (lit ''normal text'')])]
   = Inr [(KStr (lit ''items''), List [Str (lit ''<REDACTED>''), Str (lit ''normal text'')])]"
proof (intro conjI allI impI)
  fix cfg :: "(key \<times> val) list" and i k xs ph
  assume a: "string_keys_entries cfg \<and> i < length cfg \<and> cfg ! i = (k, List xs)"
  then have "\<not> odd_entry_entries cfg" by (simp add: string_keys_not_odd)
  then obtain cfg' where r: "obfuscate_config ph cfg = Inr cfg'"
    using obfuscate_returns(3) by blast
  from obfuscate_config_nth [OF r, of i] a
  obtain xs' where x: "obfuscate_items ph xs = Inr xs'" and c: "cfg' ! i = (k, List xs')"
    by (auto simp: prod_eq_iff)
  note n = obfuscate_items_nth [OF x]
  have "\<forall>j<length xs.
            (\<forall>s. xs ! j = Str s \<longrightarrow> xs' ! j = (if matches_pattern s then Str ph else Str s)) \<and>
            (\<forall>a. xs ! j = Atom a \<longrightarrow> xs' ! j = Atom a) \<and>
            (\<forall>d. xs ! j = Dict d \<longrightarrow> (\<exists>d'. obfuscate_config ph d = Inr d' \<and> xs' ! j = Dict d')) \<and>
            (\<forall>l. xs ! j = List l \<longrightarrow> (\<exists>l'. obfuscate_items ph l = Inr l' \<and> xs' ! j = List l'))"
  proof (intro allI impI)
    fix j assume "j < length xs"
    with n have v: "obfuscate_value ph (xs ! j) = Inr (xs' ! j)" by blast
    show "(\<forall>s. xs ! j = Str s \<longrightarrow> xs' ! j = (if matches_pattern s then Str ph else Str s)) \<and>
            (\<forall>a. xs ! j = Atom a \<longrightarrow> xs' ! j = Atom a) \<and>
            (\<forall>d. xs ! j = Dict d \<longrightarrow> (\<exists>d'. obfuscate_config ph d = Inr d' \<and> xs' ! j = Dict d')) \<and>
            (\<forall>l. xs ! j = List l \<longrightarrow> (\<exists>l'. obfuscate_items ph l = Inr l' \<and> xs' ! j = List l'))"
      using v by (cases "xs ! j") (auto simp: value_loop_patterns split: sum.splits)
  qed
  with r c n show "\<exists>cfg' xs'. obfuscate_config ph cfg = Inr cfg' \<and> cfg' ! i = (k, List xs') \<and>
         length xs' = length xs \<and>
         (\<forall>j<length xs.
            (\<forall>s. xs ! j = Str s \<longrightarrow> xs' ! j = (if matches_pattern s then Str ph else Str s)) \<and>
            (\<forall>a. xs ! j = Atom a \<longrightarrow> xs' ! j = Atom a) \<and>
            (\<forall>d. xs ! j = Dict d \<longrightarrow> (\<exists>d'. obfuscate_config ph d = Inr d' \<and> xs' ! j = Dict d')) \<and>
            (\<forall>l. xs ! j = List l \<longrightarrow> (\<exists>l'. obfuscate_items ph l = Inr l' \<and> xs' ! j = List l')))"
    by blast
next
  show "obfuscate_config (lit ''<REDACTED>'')
     [(KStr (lit ''items''), List [Str (lit ''secret: abc''), Str (lit ''normal text'')])]
   = Inr [(KStr (lit ''items''), List [Str (lit ''<REDACTED>''), Str (lit ''normal text'')])]"
    by (simp add: eval_defs)
qed

theorem C6_list_elements_witness:
  "string_keys_entries [(KStr (lit ''items''), List [Str (lit ''token : x''), Atom (AInt 1)])] \<and>
   0 < length [(KStr (lit ''items''), List [Str (lit ''token : x''), Atom (AInt 1)])] \<and>
   [(KStr (lit ''items''), List [Str (lit ''token : x''), Atom (AInt 1)])] ! 0
      = (KStr (lit ''items''), List [Str (lit ''token : x''), Atom (AInt 1)]) \<and>
   matches_pattern (lit ''token : x'') \<and>
   (\<exists>cfg' xs'. obfuscate_config (lit ''***'')
        [(KStr (lit ''items''), List [Str (lit ''token : x''), Atom (AInt 1)])] = Inr cfg' \<and>
      cfg' ! 0 = (KStr (lit ''items''), List xs') \<and> length xs' = 2 \<and>
      xs' ! 0 = Str (lit ''***'') \<and> xs' ! 1 = Atom (AInt 1))"
proof -
  let ?cfg = "[(KStr (lit ''items''), List [Str (lit ''token : x''), Atom (AInt 1)])]"
  have h: "string_keys_entries ?cfg \<and> 0 < length ?cfg \<and>
      ?cfg ! 0 = (KStr (lit ''items''), List [Str (lit ''token : x''), Atom (AInt 1)])"
    by simp
  have m: "matches_pattern (lit ''token : x'')" by (simp add: eval_defs)
  from C6_list_elements [THEN conjunct1, rule_format, OF h, of "lit ''***''"]
  obtain cfg' xs' where r: "obfuscate_config (lit ''***'') ?cfg = Inr cfg'"
    and c: "cfg' ! 0 = (KStr (lit ''items''), List xs')"
    and l: "length xs' = length [Str (lit ''token : x''), Atom (AInt 1)]"
    and e: "\<forall>j<length [Str (lit ''token : x''), Atom (AInt 1)].
            (\<forall>s. [Str (lit ''token : x''), Atom (AInt 1)] ! j = Str s \<longrightarrow>
                 xs' ! j = (if matches_pattern s then Str (lit ''***'') else Str s)) \<and>
            (\<forall>a. [Str (lit ''token : x''), Atom (AInt 1)] ! j = Atom a \<longrightarrow> xs' ! j = Atom a)"
    by blast
  from e [rule_format, of 0] m have e0: "xs' ! 0 = Str (lit ''***'')" by simp
  from e [rule_format, of 1] have e1: "xs' ! 1 = Atom (AInt 1)" by simp
  from h m r c l e0 e1 show ?thesis by simp
qed

text \<open>
  C10, as stated, fails in its second half: a mapping key that is not a string raises
  nothing when its value is not a string, because the key is searched only then.
\<close>

theorem C10_counterexample:
  "obfuscate_config (lit ''<REDACTED>'')
     [(KInt 1, Atom (AInt 2)), (KNone, Dict [(KBool True, List [Str (lit ''a'')])])]
   = Inr [(KInt 1, Atom (AInt 2)), (KNone, Dict [(KBool True, List [Str (lit ''a'')])])]"
  by (simp add: eval_defs)

text \<open>
  C10, amended. On a mapping whose keys are all strings, at every depth, the engine
  returns. In general it returns exactly when no mapping entry, at any depth, has a key
  that is not a string together with a string value; when there is such an entry the
  key search raises \<open>TypeError\<close>.
\<close>

theorem C10_returns_or_raises:
  "(string_keys_entries cfg \<longrightarrow> (\<exists>cfg'. obfuscate_config ph cfg = Inr cfg')) \<and>
   ((\<exists>cfg'. obfuscate_config ph cfg = Inr cfg') = (\<not> odd_entry_entries cfg)) \<and>
   ((obfuscate_config ph cfg = Inl TypeError) = odd_entry_entries cfg)"
proof -
  have a: "odd_entry_entries cfg \<Longrightarrow> obfuscate_config ph cfg = Inl TypeError"
    by (rule obfuscate_raises)
  have b: "\<not> odd_entry_entries cfg \<Longrightarrow> \<exists>cfg'. obfuscate_config ph cfg = Inr cfg'"
    by (rule obfuscate_returns)
  have c: "string_keys_entries cfg \<Longrightarrow> \<not> odd_entry_entries cfg"
    by (rule string_keys_not_odd)
  from a b c show ?thesis by (cases "odd_entry_entries cfg") auto
qed

theorem C10_returns_or_raises_witness:
  "string_keys_entries [(KStr (lit ''a''), Str (lit ''b''))] \<and>
   (\<exists>cfg'. obfuscate_config (lit ''<REDACTED>'') [(KStr (lit ''a''), Str (lit ''b''))] = Inr cfg') \<and>
   odd_entry_entries [(KStr (lit ''a''), List [Dict [(KInt 1, Str (lit ''b''))]])] \<and>
   obfuscate_config (lit ''<REDACTED>'') [(KStr (lit ''a''), List [Dict [(KInt 1, Str (lit ''b''))]])]
     = Inl TypeError"
proof -
  have h1: "string_keys_entries [(KStr (lit ''a''), Str (lit ''b''))]" by simp
  have h2: "odd_entry_entries [(KStr (lit ''a''), List [Dict [(KInt 1, Str (lit ''b''))]])]"
    by simp
  from C10_returns_or_raises [of "[(KStr (lit ''a''), Str (lit ''b''))]" "lit ''<REDACTED>''"] h1
  have r1: "\<exists>cfg'. obfuscate_config (lit ''<REDACTED>'') [(KStr (lit ''a''), Str (lit ''b''))] = Inr cfg'"
    by blast
  from C10_returns_or_raises [of "[(KStr (lit ''a''), List [Dict [(KInt 1, Str (lit ''b''))]])]"
      "lit ''<REDACTED>''"] h2
  have r2: "obfuscate_config (lit ''<REDACTED>'')
      [(KStr (lit ''a''), List [Dict [(KInt 1, Str (lit ''b''))]])] = Inl TypeError"
    by blast
  from h1 h2 r1 r2 show ?thesis by blast
qed

section \<open>The claims about loading, saving and the exit status\<close>




text \<open>
  C8. When the input file exists and can be read and both parsers reject its content,
  \<open>load_config\<close> returns its failure value after logging the error "Failed to load ... as
  either YAML or JSON", the run ends with exit status 1, and no file is written or changed.
\<close>

theorem C8_unrecognized_format:
  assumes "files w (arg_input_file a) = Some c" and "arg_input_file a \<notin> unreadable w"
    and "yaml_safe_load L c = FormatError" and "json_loads L c = FormatError"
  shows "\<exists>w1 w'.
      load_config L (ConfigObfuscator (arg_input_file a) (arg_output_file a) (arg_placeholder a)) w
        = (Atom ANone, w1) \<and>
      last (log w1) = (ERROR, LoadFailed (arg_input_file a)) \<and>
      run L a w = (1, w') \<and> files w' = files w \<and>
      last (log w') = (ERROR, LoadFailed (arg_input_file a))"
proof -
  let ?self = "ConfigObfuscator (arg_input_file a) (arg_output_file a) (arg_placeholder a)"
  have l: "\<And>u. files u = files w \<Longrightarrow> unreadable u = unreadable w \<Longrightarrow>
      load_config L ?self u = (Atom ANone, logging ERROR (LoadFailed (arg_input_file a))
          (logging DEBUG (NotYaml (arg_input_file a)) u))"
    using load_config_unrecognized [of _ ?self c L] assms by simp
  have "\<exists>w'. run L a w = (1, w') \<and> files w' = files w \<and>
      last (log w') = (ERROR, LoadFailed (arg_input_file a))"
    using assms(1) by (simp add: run_def main_def Let_def l logging_ERROR)
  moreover have "last (log (logging ERROR (LoadFailed (arg_input_file a))
          (logging DEBUG (NotYaml (arg_input_file a)) w))) = (ERROR, LoadFailed (arg_input_file a))"
    by (simp add: logging_ERROR)
  ultimately show ?thesis using l [of w] by auto
qed

theorem C8_unrecognized_format_witness:
  "files \<lparr>files = [lit ''in.txt'' \<mapsto> Text (lit ''a: b: c'')], unreadable = {}, unwritable = {},
          threshold = INFO, log = []\<rparr>
     (arg_input_file \<lparr>arg_input_file = lit ''in.txt'', arg_output_file = None,
          arg_placeholder = lit ''<REDACTED>'', arg_debug = False\<rparr>)
     = Some (Text (lit ''a: b: c'')) \<and>
   arg_input_file \<lparr>arg_input_file = lit ''in.txt'', arg_output_file = None,
          arg_placeholder = lit ''<REDACTED>'', arg_debug = False\<rparr>
     \<notin> unreadable \<lparr>files = [lit ''in.txt'' \<mapsto> Text (lit ''a: b: c'')], unreadable = {},
          unwritable = {}, threshold = INFO, log = []\<rparr> \<and>
   yaml_safe_load \<lparr>yaml_safe_load = (\<lambda>c. FormatError), json_loads = (\<lambda>c. FormatError)\<rparr>
     (Text (lit ''a: b: c'')) = FormatError \<and>
   json_loads \<lparr>yaml_safe_load = (\<lambda>c. FormatError), json_loads = (\<lambda>c. FormatError)\<rparr>
     (Text (lit ''a: b: c'')) = FormatError \<and>
   (\<exists>w'. run \<lparr>yaml_safe_load = (\<lambda>c. FormatError), json_loads = (\<lambda>c. FormatError)\<rparr>
        \<lparr>arg_input_file = lit ''in.txt'', arg_output_file = None,
          arg_placeholder = lit ''<REDACTED>'', arg_debug = False\<rparr>
        \<lparr>files = [lit ''in.txt'' \<mapsto> Text (lit ''a: b: c'')], unreadable = {}, unwritable = {},
          threshold = INFO, log = []\<rparr> = (1, w') \<and>
      files w' = [lit ''in.txt'' \<mapsto> Text (lit ''a: b: c'')] \<and>
      last (log w') = (ERROR, LoadFailed (lit ''in.txt'')))"
  using C8_unrecognized_format [of
      "\<lparr>files = [lit ''in.txt'' \<mapsto> Text (lit ''a: b: c'')], unreadable = {}, unwritable = {},
          threshold = INFO, log = []\<rparr>"
      "\<lparr>arg_input_file = lit ''in.txt'', arg_output_file = None,
          arg_placeholder = lit ''<REDACTED>'', arg_debug = False\<rparr>"
      "Text (lit ''a: b: c'')"
      "\<lparr>yaml_safe_load = (\<lambda>c. FormatError), json_loads = (\<lambda>c. FormatError)\<rparr>"]
  by auto

text \<open>
  C9. A file that holds the empty mapping \<open>{}\<close> loads successfully (the loader logs
  "Successfully loaded ... as YAML"), but \<open>if config:\<close> in \<open>main\<close> takes the empty dict for
  a failed load: the run ends with exit status 1 and writes nothing, although the input
  exists, loading succeeded and no write failed.
\<close>

theorem C9_empty_mapping_exits_1:
  "run \<lparr>yaml_safe_load = (\<lambda>c. if c = Text (lit ''{}'') then Parsed (Dict []) else FormatError),
        json_loads = (\<lambda>c. if c = Text (lit ''{}'') then Parsed (Dict []) else FormatError)\<rparr>
       \<lparr>arg_input_file = lit ''c.yaml'', arg_output_file = None,
        arg_placeholder = lit ''<REDACTED>'', arg_debug = False\<rparr>
       \<lparr>files = [lit ''c.yaml'' \<mapsto> Text (lit ''{}'')], unreadable = {}, unwritable = {},
        threshold = INFO, log = []\<rparr>
   = (1, \<lparr>files = [lit ''c.yaml'' \<mapsto> Text (lit ''{}'')], unreadable = {}, unwritable = {},
        threshold = INFO, log = [(INFO, LoadedYaml (lit ''c.yaml''))]\<rparr>)"
  by (simp add: run_def main_def load_config_def logging_def Let_def ConfigObfuscator_def)

end
